theory Spec2Isabelle
  imports Main
begin

section \<open>Data model\<close>

text \<open>
  \<^verbatim>\<open>const SYSTEM_STATUS = ['UPDATING', 'RESTARTING', 'RUNNING'] as const;\<close>
  (system.service.ts, line 10).
\<close>

datatype SystemStatus = UPDATING | RESTARTING | RUNNING

text \<open>
  The failures of the two services, as values. Each constructor stands for the
  \<^verbatim>\<open>Error\<close> thrown with the message given beside it:
  \<^item> \<open>EnvironmentRestricted\<close>: 'Cannot update in development mode' and
    'Cannot restart in development mode';
  \<^item> \<open>VersionUnavailable\<close>: 'Could not get latest version';
  \<^item> \<open>DowngradeRejected\<close>: 'Current version is newer than latest version';
  \<^item> \<open>AlreadyUpToDate\<close>: 'Current version is already up to date';
  \<^item> \<open>MajorVersionMismatch\<close>: 'The major version has changed. Please update manually
    (instructions on GitHub)';
  \<^item> \<open>InvalidVersion s\<close>: the \<^verbatim>\<open>TypeError\<close> of the semver package on a string \<open>s\<close> that
    is not a version;
  \<^item> \<open>LookupFailed\<close>: whatever the external lookup throws (the request, the JSON
    decoding, or reading \<^verbatim>\<open>name\<close> of a body that has none);
  \<^item> \<open>SecretMissing\<close>: the \<^verbatim>\<open>Error\<close> of \<^verbatim>\<open>jwt.sign\<close> on an empty key;
  \<^item> \<open>OperationInProgress\<close>: the failure the specification names for a request made
    while the status is not RUNNING. No statement of the source throws it.
\<close>

datatype error =
    EnvironmentRestricted
  | VersionUnavailable
  | DowngradeRejected
  | AlreadyUpToDate
  | MajorVersionMismatch
  | InvalidVersion string
  | LookupFailed
  | SecretMissing
  | OperationInProgress

subsection \<open>The ephemeral cache\<close>

text \<open>
  Modelled from the spec: \<^verbatim>\<open>TipiCache\<close> (core/TipiCache) is imported by both services and
  is not among the source files. The specification gives its contract:
  \<^verbatim>\<open>get(key) -> value | absent\<close>, \<^verbatim>\<open>set(key, value, ttlSeconds?) -> ack\<close>,
  \<^verbatim>\<open>delete(key) -> ack\<close>; the time to live is enforced by the backing store, absence
  after expiry is indistinguishable from never-set, and \<^verbatim>\<open>set(key, v, ttl)\<close> followed
  immediately by \<^verbatim>\<open>get(key)\<close> returns \<open>v\<close>, while after the time to live has elapsed
  \<^verbatim>\<open>get(key)\<close> returns absent.

  An entry holds its value and the instant (in seconds) from which it is absent; an entry
  set without a time to live holds no such instant.
\<close>

record cache_entry =
  val :: string
  expires_at :: "nat option"

type_synonym tipi_cache = "string \<Rightarrow> cache_entry option"

text \<open>
  Modelled from the spec: \<^verbatim>\<open>TipiCache.get(key)\<close>, read at time \<open>t\<close>. It gives the value of a
  live entry and nothing for a key never set, deleted, or past its time to live; it
  changes nothing.
\<close>

definition cache_get :: "tipi_cache \<Rightarrow> nat \<Rightarrow> string \<Rightarrow> string option" where
  "cache_get c t key =
     (case c key of
        None \<Rightarrow> None
      | Some e \<Rightarrow>
          (case expires_at e of
             None \<Rightarrow> Some (val e)
           | Some x \<Rightarrow> if t < x then Some (val e) else None))"

text \<open>
  Modelled from the spec: \<^verbatim>\<open>TipiCache.set(key, value, ttlSeconds?)\<close>, called at time \<open>t\<close>. It
  replaces whatever the key held; with a time to live \<open>d\<close> the entry is absent from
  \<open>t + d\<close> on.
\<close>

definition cache_set :: "tipi_cache \<Rightarrow> nat \<Rightarrow> string \<Rightarrow> string \<Rightarrow> nat option \<Rightarrow> tipi_cache" where
  "cache_set c t key v ttl =
     c(key \<mapsto> \<lparr>val = v, expires_at = map_option (\<lambda>d. t + d) ttl\<rparr>)"

text \<open>Modelled from the spec: \<^verbatim>\<open>TipiCache.del(key)\<close> (the contract's \<^verbatim>\<open>delete\<close>).\<close>

definition cache_del :: "tipi_cache \<Rightarrow> string \<Rightarrow> tipi_cache" where
  "cache_del c key = c(key := None)"

subsection \<open>The state the services act on\<close>

text \<open>
  Everything the two services read and write outside their own arguments:
  \<^item> \<open>cache\<close>: the shared \<^verbatim>\<open>TipiCache\<close>, and \<open>now\<close>, the clock (seconds) the cache's
    times to live are measured against;
  \<^item> \<open>NODE_ENV\<close>, \<open>version\<close>, \<open>status\<close>, \<open>jwtSecret\<close>: the fields of \<^verbatim>\<open>getConfig()\<close>
    the source reads, \<open>status\<close> being the one \<^verbatim>\<open>setConfig('status', ...)\<close> writes;
  \<^item> \<open>events\<close>: the event names handed to \<^verbatim>\<open>EventDispatcher.dispatchEventAsync\<close>, oldest
    first;
  \<^item> \<open>errlog\<close>: the values handed to \<^verbatim>\<open>Logger.error\<close>, oldest first;
  \<^item> \<open>fetches\<close>: how many times \<^verbatim>\<open>fetch\<close> has been called on the release endpoint.

  Modelled from the spec: \<^verbatim>\<open>TipiConfig\<close>, \<^verbatim>\<open>EventDispatcher\<close> and \<^verbatim>\<open>Logger\<close> are imported by
  the services and are not among the source files. The state keeps of each what the
  specification says of it: the configuration holds the values read and written under
  their keys, dispatching an event records its name and returns at once without waiting
  for any outcome, and logging records the value logged.
\<close>

record world =
  cache :: tipi_cache
  now :: nat
  NODE_ENV :: string
  version :: string
  status :: SystemStatus
  jwtSecret :: string
  events :: "string list"
  errlog :: "error list"
  fetches :: nat

text \<open>Time passing between two operations.\<close>

definition elapse :: "nat \<Rightarrow> world \<Rightarrow> world" where
  "elapse d w = w\<lparr>now := now w + d\<rparr>"

subsection \<open>JavaScript strings\<close>

text \<open>
  \<^verbatim>\<open>s.replace('v', '')\<close>: with a string pattern, \<^verbatim>\<open>String.prototype.replace\<close> replaces
  the first occurrence of the pattern only, wherever it stands in \<open>s\<close>.
\<close>

definition replace_v :: "string \<Rightarrow> string" where
  "replace_v s = remove1 (CHR ''v'') s"

text \<open>
  Truthiness of a value of type \<^verbatim>\<open>string | null | undefined\<close>: absent values and the
  empty string are falsy.
\<close>

fun truthy :: "string option \<Rightarrow> bool" where
  "truthy None = False"
| "truthy (Some s) = (s \<noteq> [])"

subsection \<open>Semantic versions\<close>

text \<open>
  \<^verbatim>\<open>semver\<close> is an external package; \<^verbatim>\<open>update\<close> calls its \<^verbatim>\<open>gt\<close>, \<^verbatim>\<open>eq\<close> and \<^verbatim>\<open>major\<close> on
  two strings. What follows is the package's strict (non-loose) reading of a version
  string and its comparison, written out so that the calls compute.

  The grammar is that of the 7.x releases before 7.5.2 (later releases add length caps
  on single identifiers inside the same overall limit of 256 characters). A \<open>char\<close>
  stands for a UTF-16 code unit below 256.

  A parsed version: three numbers, and the prerelease identifiers as the constructor
  stores them: \<open>Num n\<close> a JavaScript number, \<open>Str s\<close> a JavaScript string. Build metadata
  is read and then plays no part in any comparison, so the parsed value does not keep it.
\<close>

datatype ident = Num nat | Str string

record SemVer =
  major :: nat
  minor :: nat
  patch :: nat
  prerelease :: "ident list"

definition is_digit :: "char \<Rightarrow> bool" where
  "is_digit c = (48 \<le> (of_char c :: nat) \<and> (of_char c :: nat) \<le> 57)"

definition is_letter :: "char \<Rightarrow> bool" where
  "is_letter c =
     ((65 \<le> (of_char c :: nat) \<and> (of_char c :: nat) \<le> 90) \<or>
      (97 \<le> (of_char c :: nat) \<and> (of_char c :: nat) \<le> 122))"

text \<open>The characters \<^verbatim>\<open>[0-9A-Za-z-]\<close> of an identifier.\<close>

definition is_ident_char :: "char \<Rightarrow> bool" where
  "is_ident_char c = (is_digit c \<or> is_letter c \<or> c = CHR ''-'')"

text \<open>
  The white space \<^verbatim>\<open>trim()\<close> removes at both ends, as far as it lies below 256: space,
  tab to carriage return, and the no-break space.
\<close>

definition is_space :: "char \<Rightarrow> bool" where
  "is_space c =
     ((of_char c :: nat) = 32 \<or> (9 \<le> (of_char c :: nat) \<and> (of_char c :: nat) \<le> 13)
      \<or> (of_char c :: nat) = 160)"

definition trim :: "string \<Rightarrow> string" where
  "trim s = rev (dropWhile is_space (rev (dropWhile is_space s)))"

text \<open>The value of a string of decimal digits, read from the left.\<close>

fun digits_val :: "nat \<Rightarrow> string \<Rightarrow> nat" where
  "digits_val acc [] = acc"
| "digits_val acc (c # cs) = digits_val (10 * acc + ((of_char c :: nat) - 48)) cs"

text \<open>\<^verbatim>\<open>0|[1-9]\\d*\<close>: a number without a leading zero.\<close>

definition is_numeric_ident :: "string \<Rightarrow> bool" where
  "is_numeric_ident s =
     (s \<noteq> [] \<and> list_all is_digit s \<and> (s = ''0'' \<or> hd s \<noteq> CHR ''0''))"

text \<open>\<^verbatim>\<open>\\d*[a-zA-Z-][a-zA-Z0-9-]*\<close>: identifier characters, one of them not a digit.\<close>

definition is_nonnumeric_ident :: "string \<Rightarrow> bool" where
  "is_nonnumeric_ident s = (list_all is_ident_char s \<and> \<not> list_all is_digit s)"

text \<open>\<^verbatim>\<open>s.split(sep)\<close> for a separator of one character.\<close>

fun split_on :: "char \<Rightarrow> string \<Rightarrow> string list" where
  "split_on sep [] = [[]]"
| "split_on sep (c # cs) =
     (if c = sep then [] # split_on sep cs
      else (case split_on sep cs of
              [] \<Rightarrow> [[c]]
            | p # ps \<Rightarrow> (c # p) # ps))"

text \<open>
  The text before the first \<open>sep\<close>, and the text after it when there is one.
\<close>

definition cut_at :: "char \<Rightarrow> string \<Rightarrow> string \<times> string option" where
  "cut_at sep s =
     (let h = takeWhile (\<lambda>c. c \<noteq> sep) s; r = dropWhile (\<lambda>c. c \<noteq> sep) s
      in (h, if r = [] then None else Some (tl r)))"

definition MAX_LENGTH :: nat where
  "MAX_LENGTH = 256"

definition MAX_SAFE_INTEGER :: nat where
  "MAX_SAFE_INTEGER = 9007199254740991"

text \<open>
  The length of a number in bits.
\<close>

fun bit_length :: "nat \<Rightarrow> nat" where
  "bit_length n = (if n = 0 then 0 else Suc (bit_length (n div 2)))"

declare bit_length.simps [simp del]

text \<open>
  \<^verbatim>\<open>+s\<close> for a string \<open>s\<close> of decimal digits worth \<open>n\<close>: the double nearest to \<open>n\<close>, a tie
  going to the even significand. Below \<open>2 ^ 53\<close> that is \<open>n\<close> itself; from there on \<open>n\<close> is
  rounded to 53 significant bits, which is again a natural number. This is the
  conversion of Node (Dockerfile.dev runs node 18), whose engine rounds a decimal string
  of any length correctly. (A version string has at most 256 characters, so \<open>n\<close> is far
  below the largest double.)
\<close>

definition to_double :: "nat \<Rightarrow> nat" where
  "to_double n =
     (if n < 2 ^ 53 then n
      else
        let e = bit_length n - 53;
            q = n div 2 ^ e;
            r = n mod 2 ^ e;
            h = 2 ^ (e - 1)
        in (if r > h \<or> (r = h \<and> odd q) then q + 1 else q) * 2 ^ e)"

text \<open>
  A prerelease identifier as the constructor stores it:
  \<^verbatim>\<open>
  if (/^[0-9]+$/.test(id)) {
    const num = +id
    if (num >= 0 && num < MAX_SAFE_INTEGER) return num
  }
  return id
  \<close>
  Digits worth less than \<^verbatim>\<open>MAX_SAFE_INTEGER\<close> become a number; every other identifier,
  longer digit strings included, stays a string.
\<close>

definition parse_ident :: "string \<Rightarrow> ident" where
  "parse_ident s =
     (if s \<noteq> [] \<and> list_all is_digit s \<and> to_double (digits_val 0 s) < MAX_SAFE_INTEGER
      then Num (to_double (digits_val 0 s))
      else Str s)"

text \<open>
  \<^verbatim>\<open>new SemVer(version)\<close>: \<open>None\<close> where the constructor throws its \<^verbatim>\<open>TypeError\<close>. The
  string may be at most \<^verbatim>\<open>MAX_LENGTH\<close> long; trimmed, it has to match
  \<^verbatim>\<open>^v?MAJOR.MINOR.PATCH(-PRERELEASE)?(+BUILD)?$\<close>, where the three numbers have no leading
  zero and, converted with \<^verbatim>\<open>+\<close>, are at most \<^verbatim>\<open>MAX_SAFE_INTEGER\<close>, a prerelease is a dot-separated list of numbers
  without leading zero and of non-numeric identifiers, and a build is a dot-separated list
  of non-empty strings of identifier characters.
\<close>

definition parse :: "string \<Rightarrow> SemVer option" where
  "parse raw =
     (if length raw > MAX_LENGTH then None
      else
        let t = trim raw;
            body = (case t of c # cs \<Rightarrow> if c = CHR ''v'' then cs else t | [] \<Rightarrow> t);
            (front, build) = cut_at (CHR ''+'') body;
            (main, pre) = cut_at (CHR ''-'') front;
            build_ok = (case build of
                          None \<Rightarrow> True
                        | Some b \<Rightarrow> list_all (\<lambda>p. p \<noteq> [] \<and> list_all is_ident_char p)
                                     (split_on (CHR ''.'') b));
            pre_ok = (case pre of
                        None \<Rightarrow> True
                      | Some p \<Rightarrow> list_all (\<lambda>i. is_numeric_ident i \<or> is_nonnumeric_ident i)
                                   (split_on (CHR ''.'') p))
        in (case split_on (CHR ''.'') main of
              [a, b, c] \<Rightarrow>
                if is_numeric_ident a \<and> is_numeric_ident b \<and> is_numeric_ident c
                   \<and> build_ok \<and> pre_ok
                   \<and> to_double (digits_val 0 a) \<le> MAX_SAFE_INTEGER
                   \<and> to_double (digits_val 0 b) \<le> MAX_SAFE_INTEGER
                   \<and> to_double (digits_val 0 c) \<le> MAX_SAFE_INTEGER
                then Some \<lparr>major = to_double (digits_val 0 a),
                           minor = to_double (digits_val 0 b),
                           patch = to_double (digits_val 0 c),
                           prerelease = (case pre of
                                           None \<Rightarrow> []
                                         | Some p \<Rightarrow> map parse_ident (split_on (CHR ''.'') p))\<rparr>
                else None
            | _ \<Rightarrow> None))"

text \<open>
  \<^verbatim>\<open>a < b\<close> on two JavaScript strings: lexicographic on the character codes, a proper
  prefix being smaller.
\<close>

fun str_less :: "string \<Rightarrow> string \<Rightarrow> bool" where
  "str_less [] [] = False"
| "str_less [] (y # ys) = True"
| "str_less (x # xs) [] = False"
| "str_less (x # xs) (y # ys) =
     (if (of_char x :: nat) < of_char y then True
      else if (of_char y :: nat) < of_char x then False
      else str_less xs ys)"

text \<open>\<^verbatim>\<open>/^[0-9]+$/.test(a)\<close>, on a number through its decimal digits.\<close>

fun numeric :: "ident \<Rightarrow> bool" where
  "numeric (Num n) = True"
| "numeric (Str s) = (s \<noteq> [] \<and> list_all is_digit s)"

text \<open>\<^verbatim>\<open>+a\<close> on an identifier for which \<^verbatim>\<open>numeric\<close> holds.\<close>

fun to_number :: "ident \<Rightarrow> nat" where
  "to_number (Num n) = n"
| "to_number (Str s) = to_double (digits_val 0 s)"

text \<open>
  \<^verbatim>\<open>compareIdentifiers(a, b)\<close>:
  \<^verbatim>\<open>
  const anum = numeric.test(a)
  const bnum = numeric.test(b)
  if (anum && bnum) { a = +a; b = +b }
  return a === b ? 0 : (anum && !bnum) ? -1 : (bnum && !anum) ? 1 : a < b ? -1 : 1
  \<close>
  Two numeric identifiers compare as doubles, so two long digit strings that round to the
  same double give 0; a numeric identifier is smaller than any other; two others compare
  as strings. (The last comparison is reached by two strings only: a \<open>Num\<close> is numeric.)
\<close>

definition compareIdentifiers :: "ident \<Rightarrow> ident \<Rightarrow> int" where
  "compareIdentifiers a b =
     (if numeric a \<and> numeric b then
        (if to_number a = to_number b then 0
         else if to_number a < to_number b then - 1 else 1)
      else if a = b then 0
      else if numeric a \<and> \<not> numeric b then - 1
      else if numeric b \<and> \<not> numeric a then 1
      else (case (a, b) of
              (Str x, Str y) \<Rightarrow> if str_less x y then - 1 else 1
            | _ \<Rightarrow> 1))"

text \<open>
  \<^verbatim>\<open>compareMain\<close>: major, then minor, then patch
  (\<^verbatim>\<open>compareIdentifiers(..) || compareIdentifiers(..) || compareIdentifiers(..)\<close>).
\<close>

definition compareMain :: "SemVer \<Rightarrow> SemVer \<Rightarrow> int" where
  "compareMain a b =
     (if compareIdentifiers (Num (major a)) (Num (major b)) \<noteq> 0
      then compareIdentifiers (Num (major a)) (Num (major b))
      else if compareIdentifiers (Num (minor a)) (Num (minor b)) \<noteq> 0
      then compareIdentifiers (Num (minor a)) (Num (minor b))
      else compareIdentifiers (Num (patch a)) (Num (patch b)))"

text \<open>
  The loop of \<^verbatim>\<open>comparePre\<close> over the two identifier lists, position by position: both
  exhausted gives 0, the longer list is greater, identifiers equal under \<^verbatim>\<open>===\<close> go on, and
  the first pair that differs returns its \<^verbatim>\<open>compareIdentifiers\<close>, be it 0.
\<close>

fun comparePre_loop :: "ident list \<Rightarrow> ident list \<Rightarrow> int" where
  "comparePre_loop [] [] = 0"
| "comparePre_loop (a # as) [] = 1"
| "comparePre_loop [] (b # bs) = - 1"
| "comparePre_loop (a # as) (b # bs) =
     (if a = b then comparePre_loop as bs else compareIdentifiers a b)"

text \<open>
  \<^verbatim>\<open>comparePre\<close>: a version with a prerelease is smaller than the same version without.
\<close>

definition comparePre :: "SemVer \<Rightarrow> SemVer \<Rightarrow> int" where
  "comparePre a b =
     (if prerelease a \<noteq> [] \<and> prerelease b = [] then - 1
      else if prerelease a = [] \<and> prerelease b \<noteq> [] then 1
      else if prerelease a = [] \<and> prerelease b = [] then 0
      else comparePre_loop (prerelease a) (prerelease b))"

text \<open>\<^verbatim>\<open>a.compare(b)\<close>: \<^verbatim>\<open>compareMain(b) || comparePre(b)\<close>.\<close>

definition compare :: "SemVer \<Rightarrow> SemVer \<Rightarrow> int" where
  "compare a b = (if compareMain a b \<noteq> 0 then compareMain a b else comparePre a b)"

text \<open>
  \<^verbatim>\<open>semver.gt(a, b)\<close>, \<^verbatim>\<open>semver.eq(a, b)\<close>, \<^verbatim>\<open>semver.lt(a, b)\<close> and \<^verbatim>\<open>semver.major(a)\<close> on
  strings: \<open>a\<close> is parsed first, then \<open>b\<close>, and the first that is not a version is the
  \<^verbatim>\<open>TypeError\<close>.
\<close>

definition semver_compare :: "string \<Rightarrow> string \<Rightarrow> error + int" where
  "semver_compare a b =
     (case parse a of
        None \<Rightarrow> Inl (InvalidVersion a)
      | Some x \<Rightarrow>
          (case parse b of
             None \<Rightarrow> Inl (InvalidVersion b)
           | Some y \<Rightarrow> Inr (compare x y)))"

definition semver_gt :: "string \<Rightarrow> string \<Rightarrow> error + bool" where
  "semver_gt a b = map_sum id (\<lambda>c. c > 0) (semver_compare a b)"

definition semver_eq :: "string \<Rightarrow> string \<Rightarrow> error + bool" where
  "semver_eq a b = map_sum id (\<lambda>c. c = 0) (semver_compare a b)"

definition semver_lt :: "string \<Rightarrow> string \<Rightarrow> error + bool" where
  "semver_lt a b = map_sum id (\<lambda>c. c < 0) (semver_compare a b)"

definition semver_major :: "string \<Rightarrow> error + nat" where
  "semver_major a =
     (case parse a of
        None \<Rightarrow> Inl (InvalidVersion a)
      | Some x \<Rightarrow> Inr (major x))"

section \<open>The system service\<close>

subsection \<open>The version lookup\<close>

text \<open>
  What the request to the release endpoint brings back: \<open>Unreachable\<close> when \<^verbatim>\<open>fetch\<close> or
  \<^verbatim>\<open>data.json()\<close> throws, otherwise the \<^verbatim>\<open>name\<close> field of the decoded body, \<open>None\<close> when
  the body has no such string (\<^verbatim>\<open>release.name.replace\<close> then throws a \<^verbatim>\<open>TypeError\<close>).
\<close>

datatype lookup = Unreachable | Release "string option"

text \<open>The value \<^verbatim>\<open>{ current, latest }\<close>; \<open>latest = None\<close> is \<^verbatim>\<open>undefined\<close>.\<close>

record version_info =
  current :: string
  latest :: "string option"

text \<open>
  The body of the \<^verbatim>\<open>try\<close> block of \<^verbatim>\<open>getVersion\<close> (lines 45 to 55):
  \<^verbatim>\<open>
  let version = await this.cache.get('latestVersion');
  if (!version) {
    const data = await fetch('https://api.github.com/repos/meienberger/runtipi/releases/latest');
    const release = (await data.json()) as { name: string };
    version = release.name.replace('v', '');
    await this.cache.set('latestVersion', version?.replace('v', '') || '', 60 * 60);
  }
  return { current: getConfig().version, latest: version?.replace('v', '') };
  \<close>
  \<open>Inl\<close> is an exception leaving the block.
\<close>

definition getVersion_try :: "lookup \<Rightarrow> world \<Rightarrow> (error + version_info) \<times> world" where
  "getVersion_try resp w =
     (let cached = cache_get (cache w) (now w) ''latestVersion'' in
      if \<not> truthy cached then
        (let w1 = w\<lparr>fetches := fetches w + 1\<rparr> in
         case resp of
           Unreachable \<Rightarrow> (Inl LookupFailed, w1)
         | Release None \<Rightarrow> (Inl LookupFailed, w1)
         | Release (Some name) \<Rightarrow>
             (let v = replace_v name;
                  w2 = w1\<lparr>cache := cache_set (cache w1) (now w1) ''latestVersion''
                                   (if replace_v v \<noteq> [] then replace_v v else [])
                                   (Some (60 * 60))\<rparr>
              in (Inr \<lparr>current = version w2, latest = Some (replace_v v)\<rparr>, w2)))
      else (Inr \<lparr>current = version w, latest = map_option replace_v cached\<rparr>, w))"

text \<open>
  \<^verbatim>\<open>getVersion\<close> (lines 43 to 60): the \<^verbatim>\<open>try\<close> block, and the \<^verbatim>\<open>catch\<close> that logs the
  exception and returns \<^verbatim>\<open>{ current: getConfig().version, latest: undefined }\<close>. The result
  is the outcome of the promise: \<open>Inr\<close> when it resolves, \<open>Inl\<close> when it rejects.
\<close>

definition getVersion :: "lookup \<Rightarrow> world \<Rightarrow> (error + version_info) \<times> world" where
  "getVersion resp w =
     (case getVersion_try resp w of
        (Inr r, w') \<Rightarrow> (Inr r, w')
      | (Inl e, w') \<Rightarrow>
          (Inr \<lparr>current = version w', latest = None\<rparr>, w'\<lparr>errlog := errlog w' @ [e]\<rparr>))"

subsection \<open>Update and restart\<close>

text \<open>
  \<^verbatim>\<open>update\<close> (lines 72 to 100). The checks stand in the order of the source: the version
  lookup, the development mode, a falsy \<^verbatim>\<open>latest\<close>, \<^verbatim>\<open>semver.gt\<close>, \<^verbatim>\<open>semver.eq\<close>, the
  two \<^verbatim>\<open>semver.major\<close>; then \<^verbatim>\<open>setConfig('status', 'UPDATING')\<close> and
  \<^verbatim>\<open>dispatchEventAsync('update')\<close>. The current status is not read.
\<close>

definition update :: "lookup \<Rightarrow> world \<Rightarrow> (error + bool) \<times> world" where
  "update resp w =
     (case getVersion resp w of
        (Inl e, w1) \<Rightarrow> (Inl e, w1)
      | (Inr r, w1) \<Rightarrow>
          if NODE_ENV w1 = ''development'' then (Inl EnvironmentRestricted, w1)
          else
            (case latest r of
               None \<Rightarrow> (Inl VersionUnavailable, w1)
             | Some l \<Rightarrow>
                 if l = [] then (Inl VersionUnavailable, w1)
                 else
                   (case semver_gt (current r) l of
                      Inl e \<Rightarrow> (Inl e, w1)
                    | Inr True \<Rightarrow> (Inl DowngradeRejected, w1)
                    | Inr False \<Rightarrow>
                        (case semver_eq (current r) l of
                           Inl e \<Rightarrow> (Inl e, w1)
                         | Inr True \<Rightarrow> (Inl AlreadyUpToDate, w1)
                         | Inr False \<Rightarrow>
                             (case semver_major (current r) of
                                Inl e \<Rightarrow> (Inl e, w1)
                              | Inr mc \<Rightarrow>
                                  (case semver_major l of
                                     Inl e \<Rightarrow> (Inl e, w1)
                                   | Inr ml \<Rightarrow>
                                       if mc \<noteq> ml then (Inl MajorVersionMismatch, w1)
                                       else
                                         (Inr True,
                                          w1\<lparr>status := UPDATING,
                                             events := events w1 @ [''update'']\<rparr>)))))))"

text \<open>
  \<^verbatim>\<open>restart\<close> (lines 102 to 111): the development mode is the only check; then
  \<^verbatim>\<open>setConfig('status', 'RESTARTING')\<close> and \<^verbatim>\<open>dispatchEventAsync('restart')\<close>.
\<close>

definition restart :: "world \<Rightarrow> (error + bool) \<times> world" where
  "restart w =
     (if NODE_ENV w = ''development'' then (Inl EnvironmentRestricted, w)
      else (Inr True, w\<lparr>status := RESTARTING, events := events w @ [''restart'']\<rparr>))"

section \<open>The authentication service\<close>

text \<open>
  \<^verbatim>\<open>jwt.sign({ id, session }, secret, { expiresIn })\<close> belongs to the external jsonwebtoken
  package, so \<^verbatim>\<open>refreshToken\<close> below takes the signing function as its argument \<open>sign\<close>: from
  the user, the session, the key and the lifetime to a token, or to the exception thrown.

  \<open>jwt_sign\<close> is that function as far as the examples need it. The token is kept as what
  was signed, with what key and for how long; with a falsy key the call throws
  (\<^verbatim>\<open>secretOrPrivateKey must have a value\<close>). Other keys the package may refuse (release 9
  refuses a string that is a private key in PEM form) are not told apart by \<open>jwt_sign\<close>;
  the theorems on \<^verbatim>\<open>refreshToken\<close> hold for every signing function.
\<close>

datatype jwt = Jwt (jwt_id: string) (jwt_session: string) (jwt_secret: string) (jwt_expiresIn: string)

type_synonym signer = "string \<Rightarrow> string \<Rightarrow> string \<Rightarrow> string \<Rightarrow> error + jwt"

definition jwt_sign :: signer where
  "jwt_sign uid sess secret expiresIn =
     (if secret = [] then Inl SecretMissing else Inr (Jwt uid sess secret expiresIn))"

text \<open>
  \<^verbatim>\<open>logout\<close> (lines 119 to 125): \<^verbatim>\<open>if (session) { await TipiCache.del(session); } return true;\<close>
  An absent session and the empty string are both falsy.
\<close>

definition logout :: "string option \<Rightarrow> world \<Rightarrow> bool \<times> world" where
  "logout session w =
     (case session of
        None \<Rightarrow> (True, w)
      | Some s \<Rightarrow>
          if s \<noteq> [] then (True, w\<lparr>cache := cache_del (cache w) s\<rparr>)
          else (True, w))"

text \<open>
  \<^verbatim>\<open>refreshToken\<close> (lines 133 to 147); \<open>sign\<close> is \<^verbatim>\<open>jwt.sign\<close>, \<open>newSession\<close> is the identifier
  \<^verbatim>\<open>v4()\<close> draws, \<open>Inr None\<close> is \<^verbatim>\<open>null\<close>, and \<open>Inl\<close> is the exception of \<^verbatim>\<open>jwt.sign\<close>, thrown
  after the old session has been given its six seconds:
  \<^verbatim>\<open>
  if (!session) return null;
  const userId = await TipiCache.get(session);
  if (!userId) return null;
  // Expire token in 6 seconds
  await TipiCache.set(session, userId, 6);
  const newSession = v4();
  const token = jwt.sign({ id: userId, session: newSession }, getConfig().jwtSecret, { expiresIn: '1d' });
  await TipiCache.set(newSession, userId);
  return { token };
  \<close>
\<close>

definition refreshToken ::
  "signer \<Rightarrow> string option \<Rightarrow> string \<Rightarrow> world \<Rightarrow> (error + jwt option) \<times> world" where
  "refreshToken sign session newSession w =
     (if \<not> truthy session then (Inr None, w)
      else
        (case session of
           None \<Rightarrow> (Inr None, w)
         | Some s \<Rightarrow>
             (let userId = cache_get (cache w) (now w) s in
              if \<not> truthy userId then (Inr None, w)
              else
                (case userId of
                   None \<Rightarrow> (Inr None, w)
                 | Some u \<Rightarrow>
                     (let w1 = w\<lparr>cache := cache_set (cache w) (now w) s u (Some 6)\<rparr> in
                      case sign u newSession (jwtSecret w1) ''1d'' of
                        Inl e \<Rightarrow> (Inl e, w1)
                      | Inr token \<Rightarrow>
                          (let w2 = w1\<lparr>cache := cache_set (cache w1) (now w1) newSession u None\<rparr>
                           in (Inr (Some token), w2)))))))"

section \<open>Example states\<close>

text \<open>
  A production installation at version 1.0.0 with an empty cache, nothing dispatched and
  nothing logged.
\<close>

definition example_world :: world where
  "example_world =
     \<lparr>cache = Map.empty, now = 0, NODE_ENV = ''production'', version = ''1.0.0'',
      status = RUNNING, jwtSecret = ''secret'', events = [], errlog = [], fetches = 0\<rparr>"

text \<open>The same, with \<open>v\<close> cached under \<^verbatim>\<open>latestVersion\<close> for an hour.\<close>

definition cached_world :: "string \<Rightarrow> world" where
  "cached_world v =
     example_world\<lparr>cache := cache_set Map.empty 0 ''latestVersion'' v (Some (60 * 60))\<rparr>"

text \<open>
  At time 100: the session \<^verbatim>\<open>s-old\<close> of user 42, live, and the session \<^verbatim>\<open>s-gone\<close> of the
  same user, whose six seconds ran out at time 6.
\<close>

definition session_world :: world where
  "session_world =
     example_world
       \<lparr>cache := cache_set (cache_set Map.empty 0 ''s-old'' ''42'' None) 0 ''s-gone'' ''42'' (Some 6),
        now := 100\<rparr>"

text \<open>
  The specification's reading of the clean-up of a release name: a leading \<^verbatim>\<open>v\<close> is
  dropped, the rest of the string is kept.
\<close>

definition strip_version_prefix :: "string \<Rightarrow> string" where
  "strip_version_prefix s = (case s of [] \<Rightarrow> [] | c # cs \<Rightarrow> if c = CHR ''v'' then cs else s)"

section \<open>Properties of the version comparison\<close>

lemmas semver_eval =
  parse_def trim_def cut_at_def is_numeric_ident_def is_nonnumeric_ident_def
  is_ident_char_def is_letter_def is_digit_def is_space_def MAX_LENGTH_def
  MAX_SAFE_INTEGER_def parse_ident_def to_double_def compareIdentifiers_def
  semver_compare_def semver_gt_def semver_eq_def semver_lt_def semver_major_def
  compare_def compareMain_def comparePre_def


lemma parse_100: "parse ''1.0.0'' = Some \<lparr>major = 1, minor = 0, patch = 0, prerelease = []\<rparr>"
  by (simp add: semver_eval)

lemma parse_110: "parse ''1.1.0'' = Some \<lparr>major = 1, minor = 1, patch = 0, prerelease = []\<rparr>"
  by (simp add: semver_eval)

lemma parse_120: "parse ''1.2.0'' = Some \<lparr>major = 1, minor = 2, patch = 0, prerelease = []\<rparr>"
  by (simp add: semver_eval)

lemma parse_190: "parse ''1.9.0'' = Some \<lparr>major = 1, minor = 9, patch = 0, prerelease = []\<rparr>"
  by (simp add: semver_eval)

lemma parse_200: "parse ''2.0.0'' = Some \<lparr>major = 2, minor = 0, patch = 0, prerelease = []\<rparr>"
  by (simp add: semver_eval)

lemma parse_prerelease_build:
  "parse ''v1.2.3-beta.1+build.5'' =
     Some \<lparr>major = 1, minor = 2, patch = 3, prerelease = [Str ''beta'', Num 1]\<rparr>"
  by (simp add: semver_eval)

lemma parse_rejects:
  "parse ''1.0'' = None" "parse ''01.0.0'' = None" "parse ''1.0.0-'' = None"
  "parse ''1.0.0-01'' = None" "parse ''latest'' = None"
  "parse ''9007199254740992.0.0'' = None"
  by (simp_all add: semver_eval bit_length.simps)

lemma semver_compare_examples:
  "semver_compare ''1.0.0-alpha'' ''1.0.0'' = Inr (- 1)"
  "semver_compare ''1.0.0-alpha.1'' ''1.0.0-alpha.beta'' = Inr (- 1)"
  "semver_compare ''1.0.0-beta.11'' ''1.0.0-beta.2'' = Inr 1"
  "semver_compare ''1.0.0+a'' ''1.0.0+b'' = Inr 0"
  "semver_compare ''1.0.0'' ''one'' = Inl (InvalidVersion ''one'')"
  by (simp_all add: semver_eval)

text \<open>
  Digit strings from \<^verbatim>\<open>MAX_SAFE_INTEGER\<close> on stay strings and compare as doubles:
  \<open>2 ^ 53\<close> and \<open>2 ^ 53 + 1\<close> are the same double, so the two versions below are equal.
\<close>

lemma bit_length_2_53_1: "bit_length 9007199254740993 = 54"
  by (simp add: bit_length.simps)

lemma to_double_examples:
  "to_double 9007199254740991 = 9007199254740991"
  "to_double 9007199254740992 = 9007199254740992"
  "to_double 9007199254740993 = 9007199254740992"
  "to_double 9007199254740995 = 9007199254740996"
  by (simp_all add: to_double_def bit_length.simps)

lemma parse_long_digits:
  "parse ''1.0.0-9007199254740990'' =
     Some \<lparr>major = 1, minor = 0, patch = 0, prerelease = [Num 9007199254740990]\<rparr>"
  "parse ''1.0.0-9007199254740993'' =
     Some \<lparr>major = 1, minor = 0, patch = 0, prerelease = [Str ''9007199254740993'']\<rparr>"
  by (simp_all add: semver_eval bit_length.simps)

lemma semver_eq_long_digits:
  "semver_eq ''1.0.0-9007199254740992'' ''1.0.0-9007199254740993'' = Inr True"
  by (simp add: semver_eval bit_length.simps)

text \<open>A version compares equal to itself.\<close>

lemma compareIdentifiers_same: "compareIdentifiers a a = 0"
  by (simp add: compareIdentifiers_def)

lemma comparePre_loop_same: "comparePre_loop xs xs = 0"
  by (induction xs) simp_all

lemma compare_same: "compare a a = 0"
  by (simp add: compare_def compareMain_def comparePre_def compareIdentifiers_same
        comparePre_loop_same)

text \<open>Swapping the two versions negates the result, so \<open>lt\<close> is \<open>gt\<close> the other way round.\<close>

lemma str_less_flip: "a \<noteq> b \<Longrightarrow> str_less b a = (\<not> str_less a b)"
proof (induction a b rule: str_less.induct)
  case (4 x xs y ys)
  have "(of_char x :: nat) = of_char y \<longleftrightarrow> x = y"
    by (rule of_char_eq_iff)
  with 4 show ?case by (auto simp: not_less le_less)
qed auto

lemma compareIdentifiers_flip: "compareIdentifiers b a = - compareIdentifiers a b"
proof (cases "numeric a \<and> numeric b")
  case True
  then show ?thesis
    by (auto simp: compareIdentifiers_def)
next
  case False
  show ?thesis
  proof (cases "numeric a \<or> numeric b \<or> a = b")
    case True
    with False show ?thesis
      by (auto simp: compareIdentifiers_def)
  next
    case neither: False
    then obtain x y where xy: "a = Str x" "b = Str y" "x \<noteq> y"
      by (cases a; cases b) auto
    with neither str_less_flip [of x y] show ?thesis
      by (auto simp: compareIdentifiers_def)
  qed
qed

lemma comparePre_loop_flip: "comparePre_loop ys xs = - comparePre_loop xs ys"
proof (induction xs ys rule: comparePre_loop.induct)
  case (4 a as b bs)
  with compareIdentifiers_flip [of b a] show ?case by auto
qed simp_all

lemma compareMain_flip: "compareMain b a = - compareMain a b"
  unfolding compareMain_def
    compareIdentifiers_flip [of "Num (major b)" "Num (major a)"]
    compareIdentifiers_flip [of "Num (minor b)" "Num (minor a)"]
    compareIdentifiers_flip [of "Num (patch b)" "Num (patch a)"]
  by simp

lemma comparePre_flip: "comparePre b a = - comparePre a b"
  unfolding comparePre_def comparePre_loop_flip [of "prerelease a" "prerelease b"]
  by simp

lemma compare_flip: "compare b a = - compare a b"
  unfolding compare_def compareMain_flip [of b a] comparePre_flip [of b a]
  by simp

lemma semver_lt_iff_gt: "semver_lt a b = Inr True \<longleftrightarrow> semver_gt b a = Inr True"
proof (cases "parse a")
  case None
  then show ?thesis
    by (simp add: semver_lt_def semver_gt_def semver_compare_def split: option.splits)
next
  case a: (Some x)
  show ?thesis
  proof (cases "parse b")
    case None
    with a show ?thesis
      by (simp add: semver_lt_def semver_gt_def semver_compare_def)
  next
    case (Some y)
    with a compare_flip [of y x] show ?thesis
      by (simp add: semver_lt_def semver_gt_def semver_compare_def)
  qed
qed

section \<open>What the version lookup leaves alone\<close>

lemma getVersion_try_frame:
  "getVersion_try resp w = (x, w') \<Longrightarrow>
     status w' = status w \<and> events w' = events w \<and> NODE_ENV w' = NODE_ENV w
     \<and> version w' = version w \<and> now w' = now w \<and> jwtSecret w' = jwtSecret w"
  by (auto simp: getVersion_try_def Let_def split: if_splits lookup.splits option.splits)

lemma getVersion_frame:
  "getVersion resp w = (x, w') \<Longrightarrow>
     status w' = status w \<and> events w' = events w \<and> NODE_ENV w' = NODE_ENV w
     \<and> version w' = version w \<and> now w' = now w \<and> jwtSecret w' = jwtSecret w"
  unfolding getVersion_def
  by (cases "getVersion_try resp w") (auto split: sum.splits dest: getVersion_try_frame)

lemma getVersion_try_current:
  "getVersion_try resp w = (Inr r, w') \<Longrightarrow> current r = version w"
  by (auto simp: getVersion_try_def Let_def split: if_splits lookup.splits option.splits)

lemma getVersion_resolves:
  "\<exists>r w'. getVersion resp w = (Inr r, w') \<and> current r = version w"
proof (cases "getVersion_try resp w")
  case (Pair x w')
  show ?thesis
  proof (cases x)
    case (Inl e)
    with Pair getVersion_try_frame [OF Pair] show ?thesis
      by (simp add: getVersion_def)
  next
    case (Inr r)
    with Pair getVersion_try_current [of resp w r w'] show ?thesis
      by (simp add: getVersion_def)
  qed
qed

lemma update_status_result:
  "fst (update resp (w\<lparr>status := s\<rparr>)) = fst (update resp w)
   \<and> events (snd (update resp (w\<lparr>status := s\<rparr>))) = events (snd (update resp w))"
proof -
  have t: "getVersion_try resp (w\<lparr>status := s\<rparr>) =
        (fst (getVersion_try resp w), (snd (getVersion_try resp w))\<lparr>status := s\<rparr>)"
    by (simp add: getVersion_try_def Let_def split: lookup.splits option.splits)
  have g: "getVersion resp (w\<lparr>status := s\<rparr>) =
        (fst (getVersion resp w), (snd (getVersion resp w))\<lparr>status := s\<rparr>)"
    unfolding getVersion_def t
    by (cases "getVersion_try resp w") (simp split: sum.splits)
  obtain r w1 where gv: "getVersion resp w = (Inr r, w1)"
    using getVersion_resolves [of resp w] by blast
  show ?thesis
    unfolding update_def g gv
    by (simp split: option.splits sum.splits bool.splits)
qed

lemma update_never_in_progress: "fst (update resp w) \<noteq> Inl OperationInProgress"
proof -
  obtain r w1 where gv: "getVersion resp w = (Inr r, w1)"
    using getVersion_resolves [of resp w] by blast
  show ?thesis
    unfolding update_def gv
    by (auto simp: semver_gt_def semver_eq_def semver_major_def semver_compare_def
             split: option.splits sum.splits bool.splits)
qed

lemma cached_world_hit:
  "v \<noteq> [] \<Longrightarrow>
   getVersion resp ((cached_world v)\<lparr>version := c\<rparr>) =
     (Inr \<lparr>current = c, latest = Some (replace_v v)\<rparr>, (cached_world v)\<lparr>version := c\<rparr>)"
  by (simp add: getVersion_def getVersion_try_def cached_world_def example_world_def
        cache_get_def cache_set_def)

lemma cached_world_fields:
  "NODE_ENV ((cached_world v)\<lparr>version := c\<rparr>) = ''production''
   \<and> events ((cached_world v)\<lparr>version := c\<rparr>) = []
   \<and> version ((cached_world v)\<lparr>version := c\<rparr>) = c"
  by (simp add: cached_world_def example_world_def)

section \<open>The system status and the update request\<close>

text \<open>
  Claim C1, as the code has it. The specification says that an update requested while the
  status is UPDATING or RESTARTING fails with OperationInProgress and publishes nothing.
  \<^verbatim>\<open>update\<close> never reads the status: whatever status the state holds, the request has
  the result it has under any other status and publishes the same events, and its result
  is never OperationInProgress.
\<close>

theorem C1_update_ignores_status:
  "fst (update resp (w\<lparr>status := s\<rparr>)) = fst (update resp w)
   \<and> events (snd (update resp (w\<lparr>status := s\<rparr>))) = events (snd (update resp w))
   \<and> fst (update resp (w\<lparr>status := s\<rparr>)) \<noteq> Inl OperationInProgress"
  using update_status_result [where resp = resp and w = w and s = s]
    update_never_in_progress [of resp "w\<lparr>status := s\<rparr>"]
  by simp

text \<open>
  An installation at 1.0.0 that knows of 1.1.0, once under RUNNING and once under
  RESTARTING: the request succeeds and publishes \<^verbatim>\<open>update\<close> both times.
\<close>

theorem C1_update_ignores_status_witness:
  "fst (update Unreachable ((cached_world ''1.1.0'')\<lparr>status := RESTARTING\<rparr>)) = Inr True
   \<and> events (snd (update Unreachable ((cached_world ''1.1.0'')\<lparr>status := RESTARTING\<rparr>)))
       = [''update'']"
proof -
  have "update Unreachable (cached_world ''1.1.0'') =
      (Inr True, (cached_world ''1.1.0'')\<lparr>status := UPDATING, events := [''update'']\<rparr>)"
    by (simp add: update_def cached_world_hit [where c = "''1.0.0''", simplified] semver_eval
          cached_world_def example_world_def cache_get_def cache_set_def replace_v_def
          getVersion_def getVersion_try_def)
  with C1_update_ignores_status
         [where resp = Unreachable and w = "cached_world ''1.1.0''" and s = RESTARTING]
  show ?thesis by simp
qed

text \<open>
  Claim C1 as stated fails: the status is UPDATING and an \<^verbatim>\<open>update\<close> event has already been
  published; a second request succeeds and publishes the event again.
\<close>

theorem C1_counterexample:
  "status ((cached_world ''1.1.0'')\<lparr>status := UPDATING, events := [''update'']\<rparr>) \<noteq> RUNNING
   \<and> fst (update Unreachable ((cached_world ''1.1.0'')\<lparr>status := UPDATING, events := [''update'']\<rparr>))
       = Inr True
   \<and> events (snd (update Unreachable
               ((cached_world ''1.1.0'')\<lparr>status := UPDATING, events := [''update'']\<rparr>)))
       = [''update'', ''update'']"
  by (simp add: update_def getVersion_def getVersion_try_def cached_world_def example_world_def
        cache_get_def cache_set_def replace_v_def semver_eval)

section \<open>The outcomes of an update request\<close>



text \<open>
  Two versions whose long numeric prerelease identifiers round to the same double are
  equal for \<^verbatim>\<open>semver.eq\<close>, and the request fails as already up to date.
\<close>

lemma update_long_digits:
  "fst (update Unreachable
         ((cached_world ''1.0.0-9007199254740993'')\<lparr>version := ''1.0.0-9007199254740992''\<rparr>))
     = Inl AlreadyUpToDate"
  by (simp add: update_def cached_world_hit replace_v_def cached_world_fields semver_eval
        bit_length.simps)

section \<open>The restart request\<close>

text \<open>
  Claim C3, as the code has it. The specification says that a restart requested while the
  status is not RUNNING fails with OperationInProgress. \<^verbatim>\<open>restart\<close> never reads the status:
  its result is never OperationInProgress, and outside development mode it succeeds under
  every status, sets the status to RESTARTING and publishes the event \<^verbatim>\<open>restart\<close> after the
  events already there.
\<close>

theorem C3_restart_ignores_status:
  "fst (restart w) \<noteq> Inl OperationInProgress
   \<and> (NODE_ENV w \<noteq> ''development'' \<longrightarrow>
        restart w = (Inr True, w\<lparr>status := RESTARTING, events := events w @ [''restart'']\<rparr>))"
  by (simp add: restart_def)

theorem C3_restart_ignores_status_witness:
  "NODE_ENV (example_world\<lparr>status := UPDATING\<rparr>) \<noteq> ''development''
   \<and> restart (example_world\<lparr>status := UPDATING\<rparr>) =
       (Inr True, example_world\<lparr>status := RESTARTING, events := [''restart'']\<rparr>)"
  using C3_restart_ignores_status [of "example_world\<lparr>status := UPDATING\<rparr>"]
  by (simp add: example_world_def)

text \<open>
  Claim C3 as stated fails: the status is RESTARTING and a \<^verbatim>\<open>restart\<close> event has already
  been published; a second request succeeds and publishes the event again.
\<close>

theorem C3_counterexample:
  "status (example_world\<lparr>status := RESTARTING, events := [''restart'']\<rparr>) \<noteq> RUNNING
   \<and> restart (example_world\<lparr>status := RESTARTING, events := [''restart'']\<rparr>) =
       (Inr True, example_world\<lparr>status := RESTARTING, events := [''restart'', ''restart'']\<rparr>)"
  by (simp add: restart_def example_world_def)

section \<open>Development mode\<close>

text \<open>
  Claim C4. In development mode the update request and the restart request both fail with
  EnvironmentRestricted; the status and the published events are the ones from before the
  request (for the restart request nothing at all has changed).
\<close>

theorem C4_development_restricted:
  assumes "NODE_ENV w = ''development''"
  shows "fst (update resp w) = Inl EnvironmentRestricted
       \<and> status (snd (update resp w)) = status w
       \<and> events (snd (update resp w)) = events w
       \<and> restart w = (Inl EnvironmentRestricted, w)"
proof -
  obtain r w1 where gv: "getVersion resp w = (Inr r, w1)"
    using getVersion_resolves [of resp w] by blast
  from getVersion_frame [OF gv] assms show ?thesis
    by (simp add: update_def gv restart_def)
qed

theorem C4_development_restricted_witness:
  "NODE_ENV (example_world\<lparr>NODE_ENV := ''development''\<rparr>) = ''development''
   \<and> fst (update (Release (Some ''v1.1.0'')) (example_world\<lparr>NODE_ENV := ''development''\<rparr>)) = Inl EnvironmentRestricted
   \<and> status (snd (update (Release (Some ''v1.1.0'')) (example_world\<lparr>NODE_ENV := ''development''\<rparr>))) = RUNNING
   \<and> events (snd (update (Release (Some ''v1.1.0'')) (example_world\<lparr>NODE_ENV := ''development''\<rparr>))) = []
   \<and> restart (example_world\<lparr>NODE_ENV := ''development''\<rparr>) = (Inl EnvironmentRestricted, (example_world\<lparr>NODE_ENV := ''development''\<rparr>))"
proof -
  have h: "NODE_ENV (example_world\<lparr>NODE_ENV := ''development''\<rparr>) = ''development''"
    by simp
  from C4_development_restricted [OF h, of "Release (Some ''v1.1.0'')"] show ?thesis
    by (simp add: example_world_def)
qed

section \<open>The version lookup\<close>

text \<open>
  Claim C5. Whatever the external lookup brings back, \<^verbatim>\<open>getVersion\<close> resolves (its outcome
  is never a rejection) to a value whose \<^verbatim>\<open>current\<close> is the version of the configuration.
  When the cache has no usable \<^verbatim>\<open>latestVersion\<close> and the lookup fails (the request fails, or
  the body has no \<^verbatim>\<open>name\<close>), \<^verbatim>\<open>latest\<close> is undefined, the failure is appended to the log, and
  the only other change of the state is the count of requests made.
\<close>

theorem C5_getVersion_never_fails:
  "(\<exists>r w'. getVersion resp w = (Inr r, w') \<and> current r = version w)
   \<and> (\<not> truthy (cache_get (cache w) (now w) ''latestVersion'')
        \<and> (resp = Unreachable \<or> resp = Release None) \<longrightarrow>
        getVersion resp w =
          (Inr \<lparr>current = version w, latest = None\<rparr>,
           w\<lparr>fetches := fetches w + 1, errlog := errlog w @ [LookupFailed]\<rparr>))"
  using getVersion_resolves [of resp w]
  by (auto simp: getVersion_def getVersion_try_def)

theorem C5_getVersion_never_fails_witness:
  "\<not> truthy (cache_get (cache example_world) (now example_world) ''latestVersion'')
   \<and> getVersion Unreachable example_world =
       (Inr \<lparr>current = ''1.0.0'', latest = None\<rparr>,
        example_world\<lparr>fetches := 1, errlog := [LookupFailed]\<rparr>)"
proof -
  have h: "\<not> truthy (cache_get (cache example_world) (now example_world) ''latestVersion'')"
    by (simp add: example_world_def cache_get_def)
  from h C5_getVersion_never_fails [of Unreachable example_world] show ?thesis
    by (simp add: example_world_def)
qed

text \<open>
  Where the release name has no \<^verbatim>\<open>v\<close> other than a leading one, a lookup on a cache without
  a usable \<^verbatim>\<open>latestVersion\<close> makes one request, caches the name without its prefix for 3600
  seconds and returns it; and a cached value without any \<^verbatim>\<open>v\<close> is returned as it is, with no
  request made.
\<close>

lemma replace_v_no_v: "CHR ''v'' \<notin> set s \<Longrightarrow> replace_v s = s"
  by (simp add: replace_v_def remove1_idem)

lemma replace_v_prefix:
  "CHR ''v'' \<notin> set (strip_version_prefix name) \<Longrightarrow>
     replace_v name = strip_version_prefix name
     \<and> replace_v (strip_version_prefix name) = strip_version_prefix name"
  by (cases name) (auto simp: strip_version_prefix_def replace_v_def remove1_idem split: if_splits)

lemma getVersion_miss_plain_name:
  assumes miss: "\<not> truthy (cache_get (cache w) (now w) ''latestVersion'')"
    and plain: "CHR ''v'' \<notin> set (strip_version_prefix name)"
  shows "getVersion (Release (Some name)) w =
          (Inr \<lparr>current = version w, latest = Some (strip_version_prefix name)\<rparr>,
           w\<lparr>fetches := fetches w + 1,
             cache := cache_set (cache w) (now w) ''latestVersion''
                        (strip_version_prefix name) (Some 3600)\<rparr>)"
  using miss replace_v_prefix [OF plain]
  by (simp add: getVersion_def getVersion_try_def Let_def)

lemma getVersion_hit_plain:
  assumes hit: "cache_get (cache w) (now w) ''latestVersion'' = Some v"
    and ne: "v \<noteq> []" and plain: "CHR ''v'' \<notin> set v"
  shows "getVersion resp w = (Inr \<lparr>current = version w, latest = Some v\<rparr>, w)"
  using hit ne replace_v_no_v [OF plain]
  by (simp add: getVersion_def getVersion_try_def)

text \<open>
  Claim C6 says that on a cache miss the version string of the release is stripped of a
  leading version-prefix character, cached and returned. For the release name
  \<^verbatim>\<open>v1.0.0-dev\<close> that is \<^verbatim>\<open>1.0.0-dev\<close>. The code applies \<^verbatim>\<open>replace('v', '')\<close> to the name and
  once more to the result, so the \<^verbatim>\<open>v\<close> of \<^verbatim>\<open>dev\<close> goes too: after the one request,
  \<^verbatim>\<open>1.0.0-de\<close> is what is cached and what is returned as \<^verbatim>\<open>latest\<close>.
\<close>

theorem C6_inner_v_removed:
  "\<not> truthy (cache_get (cache example_world) (now example_world) ''latestVersion'')
   \<and> strip_version_prefix ''v1.0.0-dev'' = ''1.0.0-dev''
   \<and> fst (getVersion (Release (Some ''v1.0.0-dev'')) example_world) =
       Inr \<lparr>current = ''1.0.0'', latest = Some ''1.0.0-de''\<rparr>
   \<and> cache_get (cache (snd (getVersion (Release (Some ''v1.0.0-dev'')) example_world))) 0
         ''latestVersion'' = Some ''1.0.0-de''
   \<and> fetches (snd (getVersion (Release (Some ''v1.0.0-dev'')) example_world)) = 1"
  by (simp add: getVersion_def getVersion_try_def example_world_def cache_get_def cache_set_def
        replace_v_def strip_version_prefix_def)

text \<open>
  Claim C8, as the code has it. In development mode, with no usable \<^verbatim>\<open>latestVersion\<close> in
  the cache, the update request fails with EnvironmentRestricted only after the version
  lookup has run: one request has been made to the release endpoint whatever it brings
  back; when it brought back a release name, \<^verbatim>\<open>latestVersion\<close> has been written to the
  cache with 3600 seconds to live; when it failed, the cache is as it was.
\<close>

theorem C8_lookup_before_restriction:
  assumes dev: "NODE_ENV w = ''development''"
    and miss: "\<not> truthy (cache_get (cache w) (now w) ''latestVersion'')"
  shows "fst (update resp w) = Inl EnvironmentRestricted
       \<and> fetches (snd (update resp w)) = fetches w + 1
       \<and> (\<forall>name. resp = Release (Some name) \<longrightarrow>
            cache (snd (update resp w)) ''latestVersion'' =
              Some \<lparr>val = replace_v (replace_v name), expires_at = Some (now w + 3600)\<rparr>)
       \<and> (resp = Unreachable \<or> resp = Release None \<longrightarrow>
            cache (snd (update resp w)) = cache w)"
  using dev miss
  by (cases resp)
     (auto simp: update_def getVersion_def getVersion_try_def Let_def cache_set_def
           split: option.splits)

theorem C8_lookup_before_restriction_witness:
  "NODE_ENV (example_world\<lparr>NODE_ENV := ''development''\<rparr>) = ''development''
   \<and> \<not> truthy (cache_get (cache (example_world\<lparr>NODE_ENV := ''development''\<rparr>)) (now (example_world\<lparr>NODE_ENV := ''development''\<rparr>)) ''latestVersion'')
   \<and> fst (update (Release (Some ''v1.1.0'')) (example_world\<lparr>NODE_ENV := ''development''\<rparr>)) = Inl EnvironmentRestricted
   \<and> fetches (snd (update (Release (Some ''v1.1.0'')) (example_world\<lparr>NODE_ENV := ''development''\<rparr>))) = 1
   \<and> cache (snd (update (Release (Some ''v1.1.0'')) (example_world\<lparr>NODE_ENV := ''development''\<rparr>))) ''latestVersion'' =
       Some \<lparr>val = ''1.1.0'', expires_at = Some 3600\<rparr>"
proof -
  have dev: "NODE_ENV (example_world\<lparr>NODE_ENV := ''development''\<rparr>) = ''development''"
    by simp
  have miss: "\<not> truthy (cache_get (cache (example_world\<lparr>NODE_ENV := ''development''\<rparr>)) (now (example_world\<lparr>NODE_ENV := ''development''\<rparr>)) ''latestVersion'')"
    by (simp add: example_world_def cache_get_def)
  from C8_lookup_before_restriction [OF dev miss, of "Release (Some ''v1.1.0'')"] miss
  show ?thesis
    by (simp add: example_world_def replace_v_def)
qed

text \<open>
  Claim C8 as stated, a cache miss causing a request and a write of \<^verbatim>\<open>latestVersion\<close>, fails
  where the lookup fails: in development mode with an empty cache and an unreachable
  endpoint the request is made, EnvironmentRestricted is raised, and the cache still has
  no \<^verbatim>\<open>latestVersion\<close>.
\<close>

theorem C8_counterexample:
  "NODE_ENV (example_world\<lparr>NODE_ENV := ''development''\<rparr>) = ''development''
   \<and> \<not> truthy (cache_get (cache (example_world\<lparr>NODE_ENV := ''development''\<rparr>)) (now (example_world\<lparr>NODE_ENV := ''development''\<rparr>)) ''latestVersion'')
   \<and> fst (update Unreachable (example_world\<lparr>NODE_ENV := ''development''\<rparr>)) = Inl EnvironmentRestricted
   \<and> fetches (snd (update Unreachable (example_world\<lparr>NODE_ENV := ''development''\<rparr>))) = 1
   \<and> cache (snd (update Unreachable (example_world\<lparr>NODE_ENV := ''development''\<rparr>))) ''latestVersion'' = None"
  by (simp add: update_def getVersion_def getVersion_try_def example_world_def cache_get_def)

section \<open>Sessions\<close>

text \<open>
  Claim C7, as the code has it. Let the session \<open>S\<close> be mapped to the user \<open>U\<close> (both
  non-empty strings, as session identifiers and user identifiers are), let \<open>S2\<close> be the
  identifier drawn for the new session, different from \<open>S\<close>, and let \<^verbatim>\<open>jwt.sign\<close> return a
  token \<open>tok\<close> for \<open>U\<close> and \<open>S2\<close> under the configured secret. Refreshing \<open>S\<close> returns
  \<open>tok\<close>, maps \<open>S2\<close> to \<open>U\<close>, and keeps the entry of \<open>S\<close> with six seconds to live instead
  of deleting it: at any time less than six seconds later \<open>S\<close> is still mapped to \<open>U\<close>, and
  from six seconds on it is absent.
\<close>

theorem C7_refresh_rotates_session:
  assumes mapped: "cache_get (cache w) (now w) S = Some U"
    and S_ne: "S \<noteq> []" and U_ne: "U \<noteq> []" and fresh: "S2 \<noteq> S"
    and signed: "sign U S2 (jwtSecret w) ''1d'' = Inr tok"
  shows "\<exists>w'. refreshToken sign (Some S) S2 w = (Inr (Some tok), w')
       \<and> cache_get (cache w') (now w') S2 = Some U
       \<and> cache w' S = Some \<lparr>val = U, expires_at = Some (now w + 6)\<rparr>
       \<and> (\<forall>d<6. cache_get (cache w') (now (elapse d w')) S = Some U)
       \<and> (\<forall>d\<ge>6. cache_get (cache w') (now (elapse d w')) S = None)"
  using assms
  by (simp add: refreshToken_def Let_def cache_set_def cache_get_def elapse_def)

text \<open>
  With the secret \<^verbatim>\<open>secret\<close>, the token returned for the session \<^verbatim>\<open>s-old\<close> of user 42 carries
  the user and the new session \<^verbatim>\<open>s-new\<close>.
\<close>

theorem C7_refresh_rotates_session_witness:
  "cache_get (cache session_world) (now session_world) ''s-old'' = Some ''42''
   \<and> jwt_sign ''42'' ''s-new'' (jwtSecret session_world) ''1d'' =
       Inr (Jwt ''42'' ''s-new'' ''secret'' ''1d'')
   \<and> fst (refreshToken jwt_sign (Some ''s-old'') ''s-new'' session_world) =
       Inr (Some (Jwt ''42'' ''s-new'' ''secret'' ''1d''))
   \<and> cache_get (cache (snd (refreshToken jwt_sign (Some ''s-old'') ''s-new'' session_world))) (now (snd (refreshToken jwt_sign (Some ''s-old'') ''s-new'' session_world))) ''s-new'' = Some ''42''
   \<and> cache_get (cache (snd (refreshToken jwt_sign (Some ''s-old'') ''s-new'' session_world))) (now (elapse 5 (snd (refreshToken jwt_sign (Some ''s-old'') ''s-new'' session_world)))) ''s-old'' = Some ''42''
   \<and> cache_get (cache (snd (refreshToken jwt_sign (Some ''s-old'') ''s-new'' session_world))) (now (elapse 6 (snd (refreshToken jwt_sign (Some ''s-old'') ''s-new'' session_world)))) ''s-old'' = None"
proof -
  have h: "cache_get (cache session_world) (now session_world) ''s-old'' = Some ''42''"
    by (simp add: session_world_def example_world_def cache_get_def cache_set_def)
  have k: "jwt_sign ''42'' ''s-new'' (jwtSecret session_world) ''1d'' =
      Inr (Jwt ''42'' ''s-new'' ''secret'' ''1d'')"
    by (simp add: jwt_sign_def session_world_def example_world_def)
  have s1: "''s-old'' \<noteq> []" and s2: "''42'' \<noteq> []" and s3: "''s-new'' \<noteq> ''s-old''"
    by simp_all
  from C7_refresh_rotates_session [where sign = jwt_sign, OF h s1 s2 s3 k]
  obtain w' where r: "refreshToken jwt_sign (Some ''s-old'') ''s-new'' session_world =
        (Inr (Some (Jwt ''42'' ''s-new'' ''secret'' ''1d'')), w')"
      and new: "cache_get (cache w') (now w') ''s-new'' = Some ''42''"
      and during: "\<forall>d<6. cache_get (cache w') (now (elapse d w')) ''s-old'' = Some ''42''"
      and after: "\<forall>d\<ge>6. cache_get (cache w') (now (elapse d w')) ''s-old'' = None"
    by auto
  from during have d5: "cache_get (cache w') (now (elapse 5 w')) ''s-old'' = Some ''42''"
    by (rule allE [where x = 5]) simp
  from after have d6: "cache_get (cache w') (now (elapse 6 w')) ''s-old'' = None"
    by (rule allE [where x = 6]) simp
  from h k r new d5 d6 show ?thesis by simp
qed

text \<open>
  Claim C7 as stated, for every session mapped to a user, fails where the configured
  secret is empty: the session \<^verbatim>\<open>s-old\<close> is mapped to user 42, the refresh gives the old
  session its six seconds (from time 100 to time 106), then \<^verbatim>\<open>jwt.sign\<close> throws; no token
  is returned and the new session is not in the cache.
\<close>

theorem C7_counterexample:
  "cache_get (cache (session_world\<lparr>jwtSecret := []\<rparr>)) (now (session_world\<lparr>jwtSecret := []\<rparr>)) ''s-old'' = Some ''42''
   \<and> fst (refreshToken jwt_sign (Some ''s-old'') ''s-new'' (session_world\<lparr>jwtSecret := []\<rparr>)) = Inl SecretMissing
   \<and> cache (snd (refreshToken jwt_sign (Some ''s-old'') ''s-new'' (session_world\<lparr>jwtSecret := []\<rparr>))) ''s-old'' =
       Some \<lparr>val = ''42'', expires_at = Some 106\<rparr>
   \<and> cache (snd (refreshToken jwt_sign (Some ''s-old'') ''s-new'' (session_world\<lparr>jwtSecret := []\<rparr>))) ''s-new'' = None"
  by (simp add: refreshToken_def jwt_sign_def session_world_def example_world_def
        cache_get_def cache_set_def)

text \<open>
  Claim C9. A refresh with no session identifier, or with one for which the cache has no
  value (never set, or expired), returns \<^verbatim>\<open>null\<close> and leaves the state, the cache
  included, exactly as it was.
\<close>

theorem C9_refresh_without_session:
  assumes "session = None \<or> (\<exists>s. session = Some s \<and> cache_get (cache w) (now w) s = None)"
  shows "refreshToken sign session newSession w = (Inr None, w)"
  using assms by (auto simp: refreshToken_def)

theorem C9_refresh_without_session_witness:
  "refreshToken jwt_sign None ''s-new'' session_world = (Inr None, session_world)
   \<and> cache_get (cache session_world) (now session_world) ''s-unknown'' = None
   \<and> refreshToken jwt_sign (Some ''s-unknown'') ''s-new'' session_world = (Inr None, session_world)
   \<and> cache session_world ''s-gone'' = Some \<lparr>val = ''42'', expires_at = Some 6\<rparr>
   \<and> cache_get (cache session_world) (now session_world) ''s-gone'' = None
   \<and> refreshToken jwt_sign (Some ''s-gone'') ''s-new'' session_world = (Inr None, session_world)"
proof -
  have h: "cache_get (cache session_world) (now session_world) ''s-unknown'' = None"
    by (simp add: session_world_def example_world_def cache_get_def cache_set_def)
  have e: "cache session_world ''s-gone'' = Some \<lparr>val = ''42'', expires_at = Some 6\<rparr>"
    by (simp add: session_world_def example_world_def cache_set_def)
  have g: "cache_get (cache session_world) (now session_world) ''s-gone'' = None"
    by (simp add: session_world_def example_world_def cache_get_def cache_set_def)
  have a: "refreshToken jwt_sign None ''s-new'' session_world = (Inr None, session_world)"
    using C9_refresh_without_session [of None session_world jwt_sign "''s-new''"] by simp
  have b: "refreshToken jwt_sign (Some ''s-unknown'') ''s-new'' session_world = (Inr None, session_world)"
    using C9_refresh_without_session [of "Some ''s-unknown''" session_world jwt_sign "''s-new''"] h
    by simp
  have c: "refreshToken jwt_sign (Some ''s-gone'') ''s-new'' session_world = (Inr None, session_world)"
    using C9_refresh_without_session [of "Some ''s-gone''" session_world jwt_sign "''s-new''"] g
    by simp
  from a b c h e g show ?thesis by simp
qed

text \<open>
  Claim C10. \<^verbatim>\<open>logout\<close> returns \<^verbatim>\<open>true\<close> on every input. Without a session identifier the
  state is unchanged. With a (non-empty) session identifier the entry of that session is
  removed from the cache, so that the session is absent at every later time, and nothing
  else changes.
\<close>

theorem C10_logout_always_true:
  "fst (logout session w) = True
   \<and> (session = None \<longrightarrow> snd (logout session w) = w)
   \<and> (\<forall>s. session = Some s \<and> s \<noteq> [] \<longrightarrow>
         snd (logout session w) = w\<lparr>cache := (cache w)(s := None)\<rparr>
         \<and> (\<forall>t. cache_get (cache (snd (logout session w))) t s = None))"
  by (auto simp: logout_def cache_del_def cache_get_def split: option.splits)

theorem C10_logout_always_true_witness:
  "cache_get (cache session_world) (now session_world) ''s-old'' = Some ''42''
   \<and> logout None session_world = (True, session_world)
   \<and> fst (logout (Some ''s-old'') session_world) = True
   \<and> cache_get (cache (snd (logout (Some ''s-old'') session_world))) (now session_world) ''s-old''
       = None"
proof -
  have h: "cache_get (cache session_world) (now session_world) ''s-old'' = Some ''42''"
    by (simp add: session_world_def example_world_def cache_get_def cache_set_def)
  have a: "logout None session_world = (True, session_world)"
    using C10_logout_always_true [of None session_world] by (simp add: prod_eq_iff)
  have b: "fst (logout (Some ''s-old'') session_world) = True
     \<and> cache_get (cache (snd (logout (Some ''s-old'') session_world))) (now session_world) ''s-old''
         = None"
    using C10_logout_always_true [of "Some ''s-old''" session_world] by auto
  from h a b show ?thesis by simp
qed

end
